theory Spec2Isabelle
  imports Complex_Main
begin

section \<open>Python values and exceptions\<close>

text \<open>
  The application (\<^verbatim>\<open>src/app.py\<close>) is a Flask program. Its handlers read form fields
  and decoded JSON, call two external services and a password library, and write the
  session and the user table. The model keeps the handlers' statements in their order;
  everything a statement can raise is a value \<open>Inl e\<close>.

  A decoded JSON value is a Python value: \<open>None\<close>, a \<open>bool\<close>, an \<open>int\<close>, a
  \<open>float\<close>, a \<open>str\<close>, a \<open>list\<close> or a \<open>dict\<close> with string keys. A \<open>dict\<close> is the
  association list of its items (the keys of a decoded object are distinct). A character
  of a \<open>string\<close> stands for one character of the Python \<open>str\<close>. Floats are only passed
  through by the program, they are reals here.
\<close>

datatype json =
    JNull
  | JBool bool
  | JInt int
  | JFloat real
  | JStr string
  | JList "json list"
  | JDict "(string \<times> json) list"

text \<open>
  The exceptions (all subclasses of \<^verbatim>\<open>Exception\<close>) that the program can meet.
  \<open>WrongType\<close> stands for the \<^verbatim>\<open>TypeError\<close> or \<^verbatim>\<open>AttributeError\<close> of an operation
  applied to a value of the wrong type; \<open>Raised cls txt\<close> is an exception of class
  \<open>cls\<close> raised inside an external library, \<open>txt\<close> being its \<^verbatim>\<open>str()\<close>.
\<close>

datatype py_exn =
    KeyError json
  | IndexError
  | WrongType
  | IntegrityError
  | Raised string string

type_synonym 'a raises = "py_exn + 'a"

definition and_then :: "'a raises \<Rightarrow> ('a \<Rightarrow> 'b raises) \<Rightarrow> 'b raises" where
  "and_then m f = (case m of Inl e \<Rightarrow> Inl e | Inr v \<Rightarrow> f v)"

text \<open>\<^verbatim>\<open>try: body  except Exception as e: handler(e)\<close>\<close>

definition try_except :: "'a raises \<Rightarrow> (py_exn \<Rightarrow> 'a raises) \<Rightarrow> 'a raises" where
  "try_except body handler = (case body of Inl e \<Rightarrow> handler e | Inr v \<Rightarrow> Inr v)"

text \<open>The truth value of a Python value, as \<^verbatim>\<open>not city\<close> tests it.\<close>

fun truthy :: "json \<Rightarrow> bool" where
  "truthy JNull = False"
| "truthy (JBool b) = b"
| "truthy (JInt i) = (i \<noteq> 0)"
| "truthy (JFloat r) = (r \<noteq> 0)"
| "truthy (JStr s) = (s \<noteq> [])"
| "truthy (JList xs) = (xs \<noteq> [])"
| "truthy (JDict kvs) = (kvs \<noteq> [])"

text \<open>\<^verbatim>\<open>d.get(k, default)\<close>: only a \<open>dict\<close> has the method.\<close>

fun dict_get :: "json \<Rightarrow> string \<Rightarrow> json \<Rightarrow> json raises" where
  "dict_get (JDict kvs) k dflt = Inr (case map_of kvs k of None \<Rightarrow> dflt | Some v \<Rightarrow> v)"
| "dict_get _ k dflt = Inl WrongType"

text \<open>\<^verbatim>\<open>d["k"]\<close>: a missing key raises \<^verbatim>\<open>KeyError\<close>, a value that is not a \<open>dict\<close> raises
  \<^verbatim>\<open>TypeError\<close> (a \<open>list\<close> and a \<open>str\<close> take integer indices, the others take none).\<close>

fun subscript_key :: "json \<Rightarrow> string \<Rightarrow> json raises" where
  "subscript_key (JDict kvs) k =
     (case map_of kvs k of None \<Rightarrow> Inl (KeyError (JStr k)) | Some v \<Rightarrow> Inr v)"
| "subscript_key _ k = Inl WrongType"

text \<open>\<^verbatim>\<open>x[0]\<close>: the first element of a \<open>list\<close>, the first character of a \<open>str\<close>;
  \<^verbatim>\<open>IndexError\<close> when empty; a decoded \<open>dict\<close> has no key \<open>0\<close>.\<close>

fun subscript_0 :: "json \<Rightarrow> json raises" where
  "subscript_0 (JList []) = Inl IndexError"
| "subscript_0 (JList (v # vs)) = Inr v"
| "subscript_0 (JStr []) = Inl IndexError"
| "subscript_0 (JStr (c # cs)) = Inr (JStr [c])"
| "subscript_0 (JDict kvs) = Inl (KeyError (JInt 0))"
| "subscript_0 _ = Inl WrongType"

section \<open>The outside world\<close>

text \<open>
  What the program consumes and does not implement: the environment variable, the HTTP
  client (\<^verbatim>\<open>requests.get\<close>, then \<^verbatim>\<open>response.json()\<close>), the text-generation client
  (\<^verbatim>\<open>generate_content\<close>, then \<^verbatim>\<open>response.text\<close>), werkzeug's password functions, and the
  interpreter's own \<^verbatim>\<open>str()\<close> and \<^verbatim>\<open>str.capitalize()\<close>. They are the fields of one record,
  given per request, and every theorem holds for all of them.
\<close>

record http_response =
  status_code :: int
  json_body :: "json raises"

record gen_response =
  text_of :: "string raises"

record world =
  OPENWEATHER_API_KEY :: "string option"
  requests_get :: "string \<Rightarrow> http_response raises"
  generate_content :: "string \<Rightarrow> gen_response raises"
  generate_password_hash :: "string \<Rightarrow> string"
  check_password_hash :: "string \<Rightarrow> string option \<Rightarrow> bool raises"
  py_str :: "json \<Rightarrow> string"
  py_exn_str :: "py_exn \<Rightarrow> string"
  str_capitalize :: "string \<Rightarrow> string"

text \<open>The external calls a handler issues, in order.\<close>

datatype call = HttpGet string | GenerateContent string

text \<open>An interpolation \<^verbatim>\<open>{v}\<close> of an f-string: a \<open>str\<close> as it is, the \<^verbatim>\<open>str()\<close> of
  anything else.\<close>

definition fmt :: "world \<Rightarrow> json \<Rightarrow> string" where
  "fmt w v =
     (case v of
        JStr s \<Rightarrow> s
      | JNull \<Rightarrow> ''None''
      | JBool b \<Rightarrow> (if b then ''True'' else ''False'')
      | _ \<Rightarrow> py_str w v)"

text \<open>\<^verbatim>\<open>str(e)\<close>: the text a library gave its exception, the interpreter's text otherwise.\<close>

definition str_exn :: "world \<Rightarrow> py_exn \<Rightarrow> string" where
  "str_exn w e = (case e of Raised cls txt \<Rightarrow> txt | _ \<Rightarrow> py_exn_str w e)"

text \<open>\<^verbatim>\<open>city.capitalize()\<close>: only a \<open>str\<close> has the method.\<close>

definition capitalize :: "world \<Rightarrow> json \<Rightarrow> string raises" where
  "capitalize w v = (case v of JStr s \<Rightarrow> Inr (str_capitalize w s) | _ \<Rightarrow> Inl WrongType)"

section \<open>Weather lookup\<close>

record weather_record =
  location :: string
  description :: json
  temperature :: json
  temp_min :: json
  temp_max :: json
  humidity :: json
  wind_speed :: json
  icon :: string

text \<open>What \<^verbatim>\<open>get_weather_data\<close> returns: the dict of eight fields, or \<^verbatim>\<open>{"error": msg}\<close>.\<close>

datatype weather_data = Weather weather_record | Error string

definition weather_url :: "world \<Rightarrow> string \<Rightarrow> json \<Rightarrow> string" where
  "weather_url w key city =
     ''https://api.openweathermap.org/data/2.5/weather?q='' @ fmt w city
       @ ''&units=metric&appid='' @ key"

text \<open>The dict literal of the success branch; its items are evaluated in the order written.\<close>

definition weather_fields :: "world \<Rightarrow> json \<Rightarrow> json \<Rightarrow> weather_data raises" where
  "weather_fields w city wd =
     and_then (capitalize w city) (\<lambda>loc.
     and_then (and_then (and_then (subscript_key wd ''weather'') subscript_0)
                 (\<lambda>x. subscript_key x ''description'')) (\<lambda>descr.
     and_then (and_then (subscript_key wd ''main'') (\<lambda>x. subscript_key x ''temp'')) (\<lambda>t.
     and_then (and_then (subscript_key wd ''main'') (\<lambda>x. subscript_key x ''temp_min'')) (\<lambda>tmin.
     and_then (and_then (subscript_key wd ''main'') (\<lambda>x. subscript_key x ''temp_max'')) (\<lambda>tmax.
     and_then (and_then (subscript_key wd ''main'') (\<lambda>x. subscript_key x ''humidity'')) (\<lambda>hum.
     and_then (and_then (subscript_key wd ''wind'') (\<lambda>x. subscript_key x ''speed'')) (\<lambda>wind.
     and_then (and_then (and_then (subscript_key wd ''weather'') subscript_0)
                 (\<lambda>x. subscript_key x ''icon'')) (\<lambda>ic.
       Inr (Weather \<lparr>location = loc, description = descr, temperature = t,
              temp_min = tmin, temp_max = tmax, humidity = hum, wind_speed = wind,
              icon = ''http://openweathermap.org/img/w/'' @ fmt w ic @ ''.png''\<rparr>)))))))))"

text \<open>The body of the \<^verbatim>\<open>try\<close> block, from \<^verbatim>\<open>requests.get(url)\<close> on.\<close>

definition weather_try :: "world \<Rightarrow> string \<Rightarrow> json \<Rightarrow> weather_data raises" where
  "weather_try w key city =
     and_then (requests_get w (weather_url w key city)) (\<lambda>response.
     and_then (json_body response) (\<lambda>wd.
       if status_code response \<noteq> 200 then
         and_then (dict_get wd ''message'' (JStr ''Unknown error'')) (\<lambda>m.
           Inr (Error (''API Error: '' @ fmt w m)))
       else weather_fields w city wd))"

text \<open>
  \<^verbatim>\<open>get_weather_data(city)\<close>. \<^verbatim>\<open>not OPENWEATHER_API_KEY\<close> holds for an unset variable
  and for an empty one. The second component lists the network calls issued.
\<close>

definition get_weather_data :: "world \<Rightarrow> json \<Rightarrow> weather_data raises \<times> call list" where
  "get_weather_data w city =
     (case OPENWEATHER_API_KEY w of
        None \<Rightarrow> (Inr (Error ''Missing API Key''), [])
      | Some key \<Rightarrow>
          if key = [] then (Inr (Error ''Missing API Key''), [])
          else (try_except (weather_try w key city) (\<lambda>e. Inr (Error (str_exn w e))),
                [HttpGet (weather_url w key city)]))"

section \<open>The user table and the session\<close>

text \<open>
  The model class \<^verbatim>\<open>User\<close>: \<open>id_col\<close> is the column \<^verbatim>\<open>id\<close> (the primary key), the
  other three columns are \<^verbatim>\<open>nullable=False\<close> and \<^verbatim>\<open>email\<close> is \<^verbatim>\<open>unique=True\<close>.
  The table is the list of its rows in insertion order.
\<close>

record user =
  id_col :: int
  name :: string
  email :: string
  password :: string

text \<open>A form of the request: \<^verbatim>\<open>request.form.get(k)\<close> is \<open>None\<close> for a missing field.\<close>

type_synonym form = "string \<Rightarrow> string option"

datatype http_method = GET | POST

text \<open>\<^verbatim>\<open>User.query.filter_by(email=email).first()\<close>; no row has a null email.\<close>

definition first_by_email :: "user list \<Rightarrow> string option \<Rightarrow> user option" where
  "first_by_email db em =
     (case em of None \<Rightarrow> None | Some e \<Rightarrow> find (\<lambda>u. email u = e) db)"

text \<open>The key SQLite gives a new row: one more than the largest key in the table.\<close>

definition next_id :: "user list \<Rightarrow> int" where
  "next_id db = foldr max (map id_col db) 0 + 1"

text \<open>
  \<^verbatim>\<open>db.session.add(User(name=.., email=.., password=..)); db.session.commit()\<close>: the
  commit raises \<^verbatim>\<open>IntegrityError\<close> and stores nothing when a column that is not nullable
  is \<open>None\<close> or the email is already in the table.
\<close>

definition add_commit ::
  "user list \<Rightarrow> string option \<Rightarrow> string option \<Rightarrow> string \<Rightarrow> user list raises" where
  "add_commit db nm em hashed =
     (case nm of
        None \<Rightarrow> Inl IntegrityError
      | Some n \<Rightarrow>
          (case em of
             None \<Rightarrow> Inl IntegrityError
           | Some e \<Rightarrow>
               if e \<in> set (map email db) then Inl IntegrityError
               else Inr (db @ [\<lparr>id_col = next_id db, name = n, email = e, password = hashed\<rparr>])))"

text \<open>The dict stored under \<^verbatim>\<open>session['travel_data']\<close>.\<close>

record travel_data =
  destination :: "string option"
  start_date :: "string option"
  end_date :: "string option"
  itinerary :: string
  weather :: weather_data

text \<open>
  Flask's session is a dict; the program writes the keys \<^verbatim>\<open>user_id\<close>, \<^verbatim>\<open>user_name\<close> and
  \<^verbatim>\<open>travel_data\<close>, and Flask's \<^verbatim>\<open>flash\<close> keeps its queue of (category, message) pairs
  under the key \<^verbatim>\<open>_flashes\<close>. A key that is absent is \<open>None\<close>, an absent queue is \<open>[]\<close>.
  The queue is emptied by the templates that show the notices; they are not part of the
  program text, so the model only ever appends to it.
\<close>

record session =
  user_id :: "int option"
  user_name :: "string option"
  travel_data :: "travel_data option"
  flashes :: "(string \<times> string) list"

text \<open>\<^verbatim>\<open>session.clear()\<close>\<close>

definition clear :: session where
  "clear = \<lparr>user_id = None, user_name = None, travel_data = None, flashes = []\<rparr>"

text \<open>\<^verbatim>\<open>flash(message, category)\<close>\<close>

definition flash :: "string \<Rightarrow> string \<Rightarrow> session \<Rightarrow> session" where
  "flash message category s = s\<lparr>flashes := flashes s @ [(category, message)]\<rparr>"

section \<open>Routes\<close>

text \<open>
  A response: a rendered template (the templates are not part of the program text, a page
  is named by its template and the \<^verbatim>\<open>travel_data\<close> argument it gets; the clock value
  \<^verbatim>\<open>now\<close> is left out), a redirect to an endpoint, a JSON body with its status, or a
  literal body. A handler that raises gives \<open>Inl e\<close>: the request fails.
\<close>

datatype response =
    Render string
  | Render_dashboard "travel_data option"
  | Redirect string
  | Jsonify weather_data int
  | Body string

definition home :: response where
  "home = Render ''homepage.html''"

definition index :: response where
  "index = Render ''index.html''"

definition dashboard :: "session \<Rightarrow> response \<times> session" where
  "dashboard s =
     (if user_id s = None
      then (Redirect ''login'', flash ''Please login to access your dashboard.'' ''warning'' s)
      else (Render_dashboard (travel_data s), s))"

definition about :: response where
  "about = Render ''about.html''"

definition contact :: response where
  "contact = Render ''contact.html''"

definition login ::
  "world \<Rightarrow> user list \<Rightarrow> http_method \<Rightarrow> form \<Rightarrow> session \<Rightarrow> response raises \<times> session" where
  "login w db m frm s =
     (if m = POST then
        (case first_by_email db (frm ''email'') of
           None \<Rightarrow> (Inr (Render ''login.html''), flash ''Invalid email or password!'' ''danger'' s)
         | Some u \<Rightarrow>
             (case check_password_hash w (password u) (frm ''password'') of
                Inl e \<Rightarrow> (Inl e, s)
              | Inr ok \<Rightarrow>
                  if ok then
                    (Inr (Redirect ''dashboard''),
                     flash (''Welcome, '' @ name u @ ''!'') ''success''
                       (s\<lparr>user_id := Some (id_col u), user_name := Some (name u)\<rparr>))
                  else
                    (Inr (Render ''login.html''),
                     flash ''Invalid email or password!'' ''danger'' s)))
      else (Inr (Render ''login.html''), s))"

definition register ::
  "world \<Rightarrow> http_method \<Rightarrow> form \<Rightarrow> user list \<Rightarrow> session
     \<Rightarrow> response raises \<times> user list \<times> session" where
  "register w m frm db s =
     (if m = POST then
        if frm ''password'' \<noteq> frm ''password2'' then
          (Inr (Redirect ''register''), db, flash ''Passwords do not match!'' ''danger'' s)
        else
          (case frm ''password'' of
             None \<Rightarrow> (Inl WrongType, db, s)
           | Some pw \<Rightarrow>
               (case first_by_email db (frm ''email'') of
                  Some u \<Rightarrow>
                    (Inr (Redirect ''register''), db,
                     flash ''Email already registered!'' ''danger'' s)
                | None \<Rightarrow>
                    (case add_commit db (frm ''name'') (frm ''email'')
                            (generate_password_hash w pw) of
                       Inl e \<Rightarrow> (Inl e, db, s)
                     | Inr db' \<Rightarrow>
                         (Inr (Redirect ''login''), db',
                          flash ''Registration successful! You can now log in.'' ''success'' s))))
      else (Inr (Render ''register.html''), db, s))"

definition logout :: "session \<Rightarrow> response \<times> session" where
  "logout s = (Redirect ''home'', flash ''You have been logged out!'' ''info'' clear)"

text \<open>A form field as the Python value it is: a \<open>str\<close>, or \<open>None\<close> when missing.\<close>

definition field_value :: "string option \<Rightarrow> json" where
  "field_value v = (case v of None \<Rightarrow> JNull | Some s \<Rightarrow> JStr s)"

definition newline :: string where
  "newline = [CHR 0x0A]"

text \<open>The f-string \<^verbatim>\<open>prompt\<close>, line by line.\<close>

definition itinerary_prompt ::
  "world \<Rightarrow> string option \<Rightarrow> string option \<Rightarrow> string option \<Rightarrow> string" where
  "itinerary_prompt w dest sd ed =
     newline
     @ ''    Generate a structured, day-wise travel itinerary for '' @ fmt w (field_value dest)
     @ '' from '' @ fmt w (field_value sd) @ '' to '' @ fmt w (field_value ed) @ ''.'' @ newline
     @ ''    '' @ newline
     @ ''    ## Formatting:'' @ newline
     @ ''    - Each day should start with **Day X: [Date] - [Theme]**'' @ newline
     @ ''    - Use **bulleted points (-)** for activities.'' @ newline
     @ ''    - Ensure clear separation between days.'' @ newline
     @ newline
     @ ''    Example:'' @ newline
     @ ''    **Day 1: Exploring '' @ fmt w (field_value dest) @ ''**'' @ newline
     @ ''    - 09:00 AM: Arrive and check-in at the hotel.'' @ newline
     @ ''    - 10:00 AM: Visit the historic city center.'' @ newline
     @ ''    - 12:00 PM: Lunch at a famous local restaurant.'' @ newline
     @ ''    - 02:00 PM: Explore museums and cultural sites.'' @ newline
     @ ''    - 07:00 PM: Dinner at a waterfront restaurant.'' @ newline
     @ ''    ''"

text \<open>
  \<^verbatim>\<open>generate_itinerary()\<close>: the guard, the three form fields, the generation call and its
  \<^verbatim>\<open>.text\<close>, the weather lookup, and only then the write to the session. The third
  component lists the external calls issued.
\<close>

definition generate_itinerary ::
  "world \<Rightarrow> form \<Rightarrow> session \<Rightarrow> response raises \<times> session \<times> call list" where
  "generate_itinerary w frm s =
     (if user_id s = None then
        (Inr (Redirect ''login''),
         flash ''Please login to generate an itinerary.'' ''warning'' s, [])
      else
        let dest = frm ''destination'';
            sd = frm ''startDate'';
            ed = frm ''endDate'';
            prompt = itinerary_prompt w dest sd ed
        in
          (case and_then (generate_content w prompt) text_of of
             Inl e \<Rightarrow> (Inl e, s, [GenerateContent prompt])
           | Inr itin \<Rightarrow>
               (case get_weather_data w (field_value dest) of
                  (Inl e, cs) \<Rightarrow> (Inl e, s, GenerateContent prompt # cs)
                | (Inr wd, cs) \<Rightarrow>
                    (Inr (Redirect ''dashboard''),
                     s\<lparr>travel_data := Some \<lparr>destination = dest, start_date = sd,
                                            end_date = ed, itinerary = itin, weather = wd\<rparr>\<rparr>,
                     GenerateContent prompt # cs))))"

text \<open>
  \<^verbatim>\<open>get_weather()\<close>. Its argument is what \<^verbatim>\<open>request.json\<close> gives: the decoded body, or
  the exception Flask raises for a body that is not JSON.
\<close>

definition get_weather :: "world \<Rightarrow> json raises \<Rightarrow> response raises \<times> call list" where
  "get_weather w request_json =
     (case and_then request_json (\<lambda>data. dict_get data ''city'' (JStr [])) of
        Inl e \<Rightarrow> (Inl e, [])
      | Inr city \<Rightarrow>
          if \<not> truthy city then (Inr (Jsonify (Error ''City not provided'') 400), [])
          else
            (case get_weather_data w city of
               (Inl e, cs) \<Rightarrow> (Inl e, cs)
             | (Inr wd, cs) \<Rightarrow> (Inr (Jsonify wd 200), cs)))"

definition blog :: response where
  "blog = Body ''<h1>Blog Page Coming Soon!</h1>''"

definition trip_planner :: response where
  "trip_planner = Body ''<h1>Trip Planner Page Coming Soon!</h1>''"

definition deals :: response where
  "deals = Body ''<h1>Deals Page Coming Soon!</h1>''"

section \<open>The application as a transition system\<close>

text \<open>
  A request names its route and carries its payload. The state is the user table and the
  session of one browser; \<open>handle\<close> dispatches as the \<^verbatim>\<open>@app.route\<close> table does, and
  \<open>run\<close> serves a sequence of requests, each in the world of its moment.
\<close>

datatype request =
    Req_home
  | Req_index
  | Req_dashboard
  | Req_about
  | Req_contact
  | Req_login http_method form
  | Req_register http_method form
  | Req_logout
  | Req_generate_itinerary form
  | Req_get_weather "json raises"
  | Req_blog
  | Req_trip_planner
  | Req_deals

record state =
  users :: "user list"
  sess :: session

fun handle :: "world \<Rightarrow> request \<Rightarrow> state \<Rightarrow> response raises \<times> state" where
  "handle w Req_home st = (Inr home, st)"
| "handle w Req_index st = (Inr index, st)"
| "handle w Req_dashboard st =
     (case dashboard (sess st) of (r, s') \<Rightarrow> (Inr r, st\<lparr>sess := s'\<rparr>))"
| "handle w Req_about st = (Inr about, st)"
| "handle w Req_contact st = (Inr contact, st)"
| "handle w (Req_login m frm) st =
     (case login w (users st) m frm (sess st) of (r, s') \<Rightarrow> (r, st\<lparr>sess := s'\<rparr>))"
| "handle w (Req_register m frm) st =
     (case register w m frm (users st) (sess st) of
        (r, db', s') \<Rightarrow> (r, \<lparr>users = db', sess = s'\<rparr>))"
| "handle w Req_logout st =
     (case logout (sess st) of (r, s') \<Rightarrow> (Inr r, st\<lparr>sess := s'\<rparr>))"
| "handle w (Req_generate_itinerary frm) st =
     (case generate_itinerary w frm (sess st) of (r, s', cs) \<Rightarrow> (r, st\<lparr>sess := s'\<rparr>))"
| "handle w (Req_get_weather body) st = (fst (get_weather w body), st)"
| "handle w Req_blog st = (Inr blog, st)"
| "handle w Req_trip_planner st = (Inr trip_planner, st)"
| "handle w Req_deals st = (Inr deals, st)"

fun run :: "(world \<times> request) list \<Rightarrow> state \<Rightarrow> state" where
  "run [] st = st"
| "run ((w, r) # rest) st = run rest (snd (handle w r st))"

text \<open>
  The bundle of a generation request, put together from the request alone: present when
  the session is authenticated and neither the generation nor the lookup raises; its
  fields are the three form fields, the generated text and the weather record of the
  destination.
\<close>

definition request_bundle :: "world \<Rightarrow> form \<Rightarrow> session \<Rightarrow> travel_data option" where
  "request_bundle w frm s =
     (if user_id s = None then None
      else
        (case and_then
                (generate_content w
                   (itinerary_prompt w (frm ''destination'') (frm ''startDate'') (frm ''endDate'')))
                text_of of
           Inl e \<Rightarrow> None
         | Inr itin \<Rightarrow>
             (case fst (get_weather_data w (field_value (frm ''destination''))) of
                Inl e \<Rightarrow> None
              | Inr wd \<Rightarrow>
                  Some \<lparr>destination = frm ''destination'', start_date = frm ''startDate'',
                        end_date = frm ''endDate'', itinerary = itin, weather = wd\<rparr>)))"

text \<open>The bundle of the most recent successful generation request of a sequence.\<close>

fun latest_generated :: "(world \<times> request) list \<Rightarrow> state \<Rightarrow> travel_data option" where
  "latest_generated [] st = None"
| "latest_generated ((w, r) # rest) st =
     (case latest_generated rest (snd (handle w r st)) of
        Some b \<Rightarrow> Some b
      | None \<Rightarrow>
          (case r of
             Req_generate_itinerary frm \<Rightarrow> request_bundle w frm (sess st)
           | _ \<Rightarrow> None))"

section \<open>Sample worlds and requests\<close>

text \<open>Concrete inputs at which the theorems below are evaluated.\<close>

definition sample_weather :: json where
  "sample_weather =
     JDict [(''weather'', JList [JDict [(''description'', JStr ''clear sky''),
                                       (''icon'', JStr ''01d'')]]),
            (''main'', JDict [(''temp'', JFloat 21), (''temp_min'', JFloat 19),
                              (''temp_max'', JInt 24), (''humidity'', JInt 40)]),
            (''wind'', JDict [(''speed'', JFloat 3)])]"

text \<open>A world where both services answer, with a stand-in for the password functions.\<close>

definition sample_world :: world where
  "sample_world =
     \<lparr>OPENWEATHER_API_KEY = Some ''k'',
      requests_get = (\<lambda>url. Inr \<lparr>status_code = 200, json_body = Inr sample_weather\<rparr>),
      generate_content = (\<lambda>p. Inr \<lparr>text_of = Inr ''**Day 1: Exploring Paris**''\<rparr>),
      generate_password_hash = (\<lambda>p. ''pbkdf2:sha256$'' @ p),
      check_password_hash =
        (\<lambda>h p. Inr (Some h = map_option (\<lambda>q. ''pbkdf2:sha256$'' @ q) p)),
      py_str = (\<lambda>v. ''?''),
      py_exn_str = (\<lambda>e. ''?''),
      str_capitalize = (\<lambda>s. s)\<rparr>"

text \<open>The same world with the weather key unset.\<close>

definition keyless_world :: world where
  "keyless_world = sample_world\<lparr>OPENWEATHER_API_KEY := None\<rparr>"

text \<open>A world whose weather provider answers 502 with a body that is not JSON.\<close>

definition bad_gateway_world :: world where
  "bad_gateway_world =
     sample_world\<lparr>requests_get := (\<lambda>url.
       Inr \<lparr>status_code = 502,
            json_body = Inl (Raised ''JSONDecodeError''
                               ''Expecting value: line 1 column 1 (char 0)'')\<rparr>)\<rparr>"

text \<open>A world whose weather provider answers 404 with its JSON error object.\<close>

definition not_found_world :: world where
  "not_found_world =
     sample_world\<lparr>requests_get := (\<lambda>url.
       Inr \<lparr>status_code = 404,
            json_body = Inr (JDict [(''cod'', JStr ''404''),
                                    (''message'', JStr ''city not found'')])\<rparr>)\<rparr>"

text \<open>A world whose text-generation service refuses the call.\<close>

definition no_text_world :: world where
  "no_text_world =
     sample_world\<lparr>generate_content := (\<lambda>p. Inl (Raised ''ResourceExhausted'' ''429 quota''))\<rparr>"

definition paris_form :: form where
  "paris_form = [''destination'' \<mapsto> ''Paris'', ''startDate'' \<mapsto> ''2025-06-01'',
                 ''endDate'' \<mapsto> ''2025-06-03'']"

definition ada_form :: form where
  "ada_form = [''name'' \<mapsto> ''Ada'', ''email'' \<mapsto> ''ada@example.org'',
               ''password'' \<mapsto> ''s3cret'', ''password2'' \<mapsto> ''s3cret'']"

definition eve_form :: form where
  "eve_form = [''name'' \<mapsto> ''Eve'', ''email'' \<mapsto> ''ada@example.org'',
               ''password'' \<mapsto> ''other'', ''password2'' \<mapsto> ''other'']"

definition typo_form :: form where
  "typo_form = [''name'' \<mapsto> ''Ada'', ''email'' \<mapsto> ''ada@example.org'',
                ''password'' \<mapsto> ''s3cret'', ''password2'' \<mapsto> ''s3cert'']"

definition ada :: user where
  "ada = \<lparr>id_col = 1, name = ''Ada'', email = ''ada@example.org'',
          password = ''pbkdf2:sha256$s3cret''\<rparr>"

definition ada_session :: session where
  "ada_session =
     \<lparr>user_id = Some 1, user_name = Some ''Ada'', travel_data = None, flashes = []\<rparr>"

definition paris_bundle :: travel_data where
  "paris_bundle =
     \<lparr>destination = Some ''Paris'', start_date = Some ''2025-06-01'',
      end_date = Some ''2025-06-03'', itinerary = ''**Day 1: Exploring Paris**'',
      weather = Weather \<lparr>location = ''Paris'', description = JStr ''clear sky'',
                  temperature = JFloat 21, temp_min = JFloat 19, temp_max = JInt 24,
                  humidity = JInt 40, wind_speed = JFloat 3,
                  icon = ''http://openweathermap.org/img/w/01d.png''\<rparr>\<rparr>"

section \<open>Basic facts\<close>

lemma and_then_Inl: "and_then (Inl e) f = Inl e"
  by (simp add: and_then_def)

lemma and_then_Inr: "and_then (Inr v) f = f v"
  by (simp add: and_then_def)

lemma try_except_returns:
  assumes "\<And>e. \<exists>r. handler e = Inr r"
  shows "\<exists>r. try_except body handler = Inr r"
proof (cases body)
  case (Inl e)
  with assms [of e] show ?thesis by (simp add: try_except_def)
next
  case (Inr v)
  then show ?thesis by (simp add: try_except_def)
qed

lemma get_weather_data_returns: "\<exists>r. fst (get_weather_data w city) = Inr r"
proof (cases "OPENWEATHER_API_KEY w")
  case None
  then show ?thesis by (simp add: get_weather_data_def)
next
  case (Some key)
  have "\<exists>r. try_except (weather_try w key city) (\<lambda>e. Inr (Error (str_exn w e))) = Inr r"
    by (rule try_except_returns) simp
  with Some show ?thesis by (simp add: get_weather_data_def)
qed

lemma first_by_email_append:
  "first_by_email (db @ [u]) (Some e) =
     (case first_by_email db (Some e) of
        Some v \<Rightarrow> Some v
      | None \<Rightarrow> if email u = e then Some u else None)"
  by (induction db) (simp_all add: first_by_email_def)

lemma first_by_email_None: "first_by_email db (Some e) = None \<longleftrightarrow> e \<notin> set (map email db)"
  by (induction db) (auto simp: first_by_email_def)

text \<open>A registration that returns leaves the submitted email in the table.\<close>

lemma register_email_present:
  assumes "frm ''email'' = Some e"
    and "frm ''password'' = frm ''password2''"
    and "register w POST frm db s = (Inr r, db', s')"
  shows "first_by_email db' (Some e) \<noteq> None"
proof (cases "first_by_email db (Some e)")
  case (Some u)
  with assms show ?thesis
    by (auto simp: register_def split: option.splits)
next
  case None
  with assms show ?thesis
    by (auto simp: register_def add_commit_def first_by_email_append
             split: option.splits if_splits)
qed


lemma register_answered:
  assumes "frm ''name'' = Some n" and "frm ''email'' = Some e"
    and "frm ''password'' = Some p" and "frm ''password2'' = Some p"
  shows "\<exists>r. fst (register w POST frm db s) = Inr r"
proof (cases "first_by_email db (Some e)")
  case (Some u)
  with assms show ?thesis by (simp add: register_def)
next
  case None
  then have "e \<notin> set (map email db)" by (simp add: first_by_email_None)
  with None assms show ?thesis by (simp add: register_def add_commit_def)
qed

section \<open>Registration\<close>

text \<open>
  Claim C4. A registration whose password and confirmation differ is answered with the
  notice "Passwords do not match!" and a redirect back to the form, whatever the name,
  the email, the table and the world are (no other check is reached), and the user
  table is unchanged.
\<close>

theorem register_mismatch:
  assumes "frm ''password'' \<noteq> frm ''password2''"
  shows "register w POST frm db s =
           (Inr (Redirect ''register''), db, flash ''Passwords do not match!'' ''danger'' s)"
  using assms by (simp add: register_def)

theorem register_mismatch_witness:
  "register sample_world POST typo_form [ada] clear =
     (Inr (Redirect ''register''), [ada],
      \<lparr>user_id = None, user_name = None, travel_data = None,
       flashes = [(''danger'', ''Passwords do not match!'')]\<rparr>)"
proof -
  have "typo_form ''password'' \<noteq> typo_form ''password2''"
    by (simp add: typo_form_def)
  from register_mismatch [OF this, of sample_world "[ada]" clear]
  show ?thesis by (simp add: flash_def clear_def)
qed

text \<open>
  Claim C3. Two registration attempts with the same email and matching passwords, the
  forms carrying their fields: whatever the first attempt did (it stored the user, or
  found the email taken already), the second is answered with the notice
  "Email already registered!" and a redirect back to the form, and it leaves the user
  table as the first attempt left it.
\<close>

theorem register_duplicate_email:
  assumes first: "frm1 ''name'' = Some n1" "frm1 ''email'' = Some e"
      "frm1 ''password'' = Some p1" "frm1 ''password2'' = Some p1"
    and second: "frm2 ''email'' = Some e"
      "frm2 ''password'' = Some p2" "frm2 ''password2'' = Some p2"
    and attempt: "register w1 POST frm1 db s = (r1, db1, s1)"
  shows "register w2 POST frm2 db1 s2 =
           (Inr (Redirect ''register''), db1,
            flash ''Email already registered!'' ''danger'' s2)"
proof -
  from register_answered [OF first, of w1 db s] attempt
  obtain r where "register w1 POST frm1 db s = (Inr r, db1, s1)" by auto
  with first have "first_by_email db1 (Some e) \<noteq> None"
    by (intro register_email_present [where frm = frm1]) simp_all
  then obtain u where "first_by_email db1 (Some e) = Some u" by auto
  with second show ?thesis by (simp add: register_def)
qed

theorem register_duplicate_email_witness:
  "register sample_world POST ada_form [] clear =
     (Inr (Redirect ''login''), [ada],
      \<lparr>user_id = None, user_name = None, travel_data = None,
       flashes = [(''success'', ''Registration successful! You can now log in.'')]\<rparr>)
   \<and> register sample_world POST eve_form [ada] clear =
     (Inr (Redirect ''register''), [ada],
      \<lparr>user_id = None, user_name = None, travel_data = None,
       flashes = [(''danger'', ''Email already registered!'')]\<rparr>)"
proof -
  have first: "register sample_world POST ada_form [] clear =
     (Inr (Redirect ''login''), [ada],
      \<lparr>user_id = None, user_name = None, travel_data = None,
       flashes = [(''success'', ''Registration successful! You can now log in.'')]\<rparr>)"
    by (simp add: register_def ada_form_def first_by_email_def add_commit_def next_id_def
          sample_world_def ada_def flash_def clear_def)
  have "register sample_world POST eve_form [ada] clear =
     (Inr (Redirect ''register''), [ada],
      flash ''Email already registered!'' ''danger'' clear)"
    by (rule register_duplicate_email [OF _ _ _ _ _ _ _ first])
       (simp_all add: ada_form_def eve_form_def)
  with first show ?thesis by (simp add: flash_def clear_def)
qed

section \<open>Weather lookup\<close>

lemma get_weather_data_keyed:
  assumes "OPENWEATHER_API_KEY w = Some key" and "key \<noteq> []"
  shows "get_weather_data w city =
           (try_except (weather_try w key city) (\<lambda>e. Inr (Error (str_exn w e))),
            [HttpGet (weather_url w key city)])"
  using assms by (simp add: get_weather_data_def)

text \<open>
  Claim C6. With no weather key configured (the variable unset, or set to the empty
  string, which \<^verbatim>\<open>not OPENWEATHER_API_KEY\<close> treats alike), \<open>get_weather_data\<close> returns
  \<^verbatim>\<open>{"error": "Missing API Key"}\<close> for every city and issues no network call.
\<close>

theorem get_weather_data_missing_key:
  assumes "OPENWEATHER_API_KEY w = None \<or> OPENWEATHER_API_KEY w = Some []"
  shows "get_weather_data w city = (Inr (Error ''Missing API Key''), [])"
  using assms
proof
  assume "OPENWEATHER_API_KEY w = None"
  then show ?thesis by (simp add: get_weather_data_def)
next
  assume "OPENWEATHER_API_KEY w = Some []"
  then show ?thesis by (simp add: get_weather_data_def)
qed

theorem get_weather_data_missing_key_witness:
  "get_weather_data keyless_world (JStr ''Paris'') = (Inr (Error ''Missing API Key''), [])"
proof -
  have "OPENWEATHER_API_KEY keyless_world = None \<or> OPENWEATHER_API_KEY keyless_world = Some []"
    by (simp add: keyless_world_def)
  then show ?thesis by (rule get_weather_data_missing_key)
qed

text \<open>
  Claim C5, as amended. \<open>get_weather_data\<close> never raises: for every world and city it
  returns a record, the weather fields or an error. A reply whose status is not 200 and
  whose body decodes to a JSON object gives \<^verbatim>\<open>{"error": "API Error: <m>"}\<close>, \<open>m\<close> being
  the object's \<^verbatim>\<open>message\<close>, or \<^verbatim>\<open>Unknown error\<close> when it has none. An exception of the
  request or of the decoding of the body, and any other exception inside the
  \<^verbatim>\<open>try\<close> block, is caught and gives the error record with the text of the exception.
\<close>

theorem get_weather_data_total:
  "(\<exists>r. fst (get_weather_data w city) = Inr r)
   \<and> (\<forall>key resp kvs.
        OPENWEATHER_API_KEY w = Some key \<and> key \<noteq> []
        \<and> requests_get w (weather_url w key city) = Inr resp
        \<and> status_code resp \<noteq> 200 \<and> json_body resp = Inr (JDict kvs)
        \<longrightarrow> get_weather_data w city =
              (Inr (Error (''API Error: ''
                 @ fmt w (case map_of kvs ''message'' of
                            None \<Rightarrow> JStr ''Unknown error'' | Some m \<Rightarrow> m))),
               [HttpGet (weather_url w key city)]))
   \<and> (\<forall>key e.
        OPENWEATHER_API_KEY w = Some key \<and> key \<noteq> []
        \<and> (requests_get w (weather_url w key city) = Inl e
             \<or> (\<exists>resp. requests_get w (weather_url w key city) = Inr resp
                        \<and> json_body resp = Inl e))
        \<longrightarrow> get_weather_data w city =
              (Inr (Error (str_exn w e)), [HttpGet (weather_url w key city)]))
   \<and> (\<forall>key e.
        OPENWEATHER_API_KEY w = Some key \<and> key \<noteq> [] \<and> weather_try w key city = Inl e
        \<longrightarrow> get_weather_data w city =
              (Inr (Error (str_exn w e)), [HttpGet (weather_url w key city)]))
   \<and> (\<forall>cls msg. str_exn w (Raised cls msg) = msg)"
proof (intro conjI allI impI)
  show "\<exists>r. fst (get_weather_data w city) = Inr r"
    by (rule get_weather_data_returns)
next
  fix key resp kvs
  assume h: "OPENWEATHER_API_KEY w = Some key \<and> key \<noteq> []
        \<and> requests_get w (weather_url w key city) = Inr resp
        \<and> status_code resp \<noteq> 200 \<and> json_body resp = Inr (JDict kvs)"
  then have "weather_try w key city =
     Inr (Error (''API Error: ''
            @ fmt w (case map_of kvs ''message'' of
                       None \<Rightarrow> JStr ''Unknown error'' | Some m \<Rightarrow> m)))"
    by (simp add: weather_try_def and_then_Inr)
  with h show "get_weather_data w city =
              (Inr (Error (''API Error: ''
                 @ fmt w (case map_of kvs ''message'' of
                            None \<Rightarrow> JStr ''Unknown error'' | Some m \<Rightarrow> m))),
               [HttpGet (weather_url w key city)])"
    by (simp add: get_weather_data_keyed try_except_def)
next
  fix key e
  assume h: "OPENWEATHER_API_KEY w = Some key \<and> key \<noteq> []
        \<and> (requests_get w (weather_url w key city) = Inl e
             \<or> (\<exists>resp. requests_get w (weather_url w key city) = Inr resp
                        \<and> json_body resp = Inl e))"
  then have "weather_try w key city = Inl e"
    by (auto simp: weather_try_def and_then_Inl and_then_Inr)
  with h show "get_weather_data w city =
              (Inr (Error (str_exn w e)), [HttpGet (weather_url w key city)])"
    by (simp add: get_weather_data_keyed try_except_def)
next
  fix key e
  assume "OPENWEATHER_API_KEY w = Some key \<and> key \<noteq> [] \<and> weather_try w key city = Inl e"
  then show "get_weather_data w city =
              (Inr (Error (str_exn w e)), [HttpGet (weather_url w key city)])"
    by (simp add: get_weather_data_keyed try_except_def)
next
  fix cls msg
  show "str_exn w (Raised cls msg) = msg" by (simp add: str_exn_def)
qed

theorem get_weather_data_not_found_witness:
  "get_weather_data not_found_world (JStr ''Paris'') =
     (Inr (Error ''API Error: city not found''),
      [HttpGet ''https://api.openweathermap.org/data/2.5/weather?q=Paris&units=metric&appid=k''])"
proof -
  let ?url = "weather_url not_found_world ''k'' (JStr ''Paris'')"
  let ?kvs = "[(''cod'', JStr ''404''), (''message'', JStr ''city not found'')]"
  have "OPENWEATHER_API_KEY not_found_world = Some ''k'' \<and> ''k'' \<noteq> []
      \<and> requests_get not_found_world ?url = Inr \<lparr>status_code = 404, json_body = Inr (JDict ?kvs)\<rparr>
      \<and> status_code \<lparr>status_code = 404, json_body = Inr (JDict ?kvs)\<rparr> \<noteq> 200
      \<and> json_body \<lparr>status_code = 404, json_body = Inr (JDict ?kvs)\<rparr> = Inr (JDict ?kvs)"
    by (simp add: not_found_world_def sample_world_def)
  with get_weather_data_total [of not_found_world "JStr ''Paris''"]
  have "get_weather_data not_found_world (JStr ''Paris'') =
          (Inr (Error (''API Error: ''
             @ fmt not_found_world (case map_of ?kvs ''message'' of
                        None \<Rightarrow> JStr ''Unknown error'' | Some m \<Rightarrow> m))),
           [HttpGet ?url])"
    by blast
  then show ?thesis by (simp add: fmt_def weather_url_def)
qed

text \<open>
  The claim as first stated fails where the provider answers with a status other than 200
  and a body that is not JSON: \<^verbatim>\<open>response.json()\<close> is called before the status is looked
  at, so the error record carries the decoder's text and no \<^verbatim>\<open>API Error:\<close> prefix.
\<close>

theorem get_weather_data_bad_gateway_counterexample:
  "requests_get bad_gateway_world
      ''https://api.openweathermap.org/data/2.5/weather?q=Paris&units=metric&appid=k''
     = Inr \<lparr>status_code = 502,
            json_body = Inl (Raised ''JSONDecodeError''
                               ''Expecting value: line 1 column 1 (char 0)'')\<rparr>
   \<and> get_weather_data bad_gateway_world (JStr ''Paris'') =
       (Inr (Error ''Expecting value: line 1 column 1 (char 0)''),
        [HttpGet ''https://api.openweathermap.org/data/2.5/weather?q=Paris&units=metric&appid=k''])
   \<and> take 11 ''Expecting value: line 1 column 1 (char 0)'' \<noteq> ''API Error: ''"
  by (simp add: bad_gateway_world_def sample_world_def get_weather_data_def weather_try_def
        weather_url_def fmt_def try_except_def and_then_def str_exn_def)

section \<open>The JSON weather route\<close>

lemma get_weather_falsy:
  assumes "dict_get body ''city'' (JStr []) = Inr city" and "\<not> truthy city"
  shows "get_weather w (Inr body) = (Inr (Jsonify (Error ''City not provided'') 400), [])"
  using assms by (simp add: get_weather_def and_then_Inr)

lemma get_weather_truthy:
  assumes "dict_get body ''city'' (JStr []) = Inr city" and "truthy city"
    and "get_weather_data w city = (Inr wd, cs)"
  shows "get_weather w (Inr body) = (Inr (Jsonify wd 200), cs)"
  using assms by (simp add: get_weather_def and_then_Inr)

text \<open>
  Claim C7, as amended. For a JSON object body: without a \<^verbatim>\<open>city\<close> field, or with one
  that Python counts as false (the empty string, \<open>null\<close>, \<open>false\<close>, zero, an empty list
  or object), the answer is status 400 with \<^verbatim>\<open>{"error": "City not provided"}\<close> and no call
  is issued; with any other city the answer is status 200 with the record that
  \<open>get_weather_data\<close> returns for that city, and the calls are those of that lookup.
\<close>

theorem get_weather_city:
  "(map_of kvs ''city'' = None \<longrightarrow>
      get_weather w (Inr (JDict kvs)) = (Inr (Jsonify (Error ''City not provided'') 400), []))
   \<and> (\<forall>city. map_of kvs ''city'' = Some city \<and> \<not> truthy city \<longrightarrow>
      get_weather w (Inr (JDict kvs)) = (Inr (Jsonify (Error ''City not provided'') 400), []))
   \<and> (\<forall>city. map_of kvs ''city'' = Some city \<and> truthy city \<longrightarrow>
      (\<exists>wd. get_weather_data w city = (Inr wd, snd (get_weather_data w city))
            \<and> get_weather w (Inr (JDict kvs))
                = (Inr (Jsonify wd 200), snd (get_weather_data w city))))"
proof (intro conjI allI impI)
  assume "map_of kvs ''city'' = None"
  then have "dict_get (JDict kvs) ''city'' (JStr []) = Inr (JStr [])" by simp
  then show "get_weather w (Inr (JDict kvs)) = (Inr (Jsonify (Error ''City not provided'') 400), [])"
    by (rule get_weather_falsy) simp
next
  fix city
  assume h: "map_of kvs ''city'' = Some city \<and> \<not> truthy city"
  then have g: "dict_get (JDict kvs) ''city'' (JStr []) = Inr city" by simp
  from h have "\<not> truthy city" by simp
  with g show "get_weather w (Inr (JDict kvs)) = (Inr (Jsonify (Error ''City not provided'') 400), [])"
    by (rule get_weather_falsy)
next
  fix city
  assume h: "map_of kvs ''city'' = Some city \<and> truthy city"
  then have g: "dict_get (JDict kvs) ''city'' (JStr []) = Inr city" by simp
  from get_weather_data_returns [of w city]
  obtain wd where wd: "get_weather_data w city = (Inr wd, snd (get_weather_data w city))"
    by (metis prod.collapse)
  from h have "truthy city" by simp
  with g have "get_weather w (Inr (JDict kvs)) = (Inr (Jsonify wd 200), snd (get_weather_data w city))"
    using wd by (rule get_weather_truthy)
  with wd show "\<exists>wd. get_weather_data w city = (Inr wd, snd (get_weather_data w city))
            \<and> get_weather w (Inr (JDict kvs))
                = (Inr (Jsonify wd 200), snd (get_weather_data w city))"
    by blast
qed

theorem get_weather_city_witness:
  "get_weather keyless_world (Inr (JDict [(''units'', JStr ''metric'')]))
     = (Inr (Jsonify (Error ''City not provided'') 400), [])
   \<and> get_weather keyless_world (Inr (JDict [(''city'', JInt 0)]))
     = (Inr (Jsonify (Error ''City not provided'') 400), [])
   \<and> get_weather keyless_world (Inr (JDict [(''city'', JStr ''Paris'')]))
     = (Inr (Jsonify (Error ''Missing API Key'') 200), [])"
proof -
  have k: "get_weather_data keyless_world (JStr ''Paris'') = (Inr (Error ''Missing API Key''), [])"
    by (simp add: get_weather_data_def keyless_world_def)
  have a: "map_of [(''units'', JStr ''metric'')] ''city'' = None" by simp
  have b: "map_of [(''city'', JInt 0)] ''city'' = Some (JInt 0) \<and> \<not> truthy (JInt 0)" by simp
  have c: "map_of [(''city'', JStr ''Paris'')] ''city'' = Some (JStr ''Paris'')
             \<and> truthy (JStr ''Paris'')" by simp
  from a get_weather_city [of "[(''units'', JStr ''metric'')]" keyless_world]
  have 1: "get_weather keyless_world (Inr (JDict [(''units'', JStr ''metric'')]))
     = (Inr (Jsonify (Error ''City not provided'') 400), [])" by blast
  from b get_weather_city [of "[(''city'', JInt 0)]" keyless_world]
  have 2: "get_weather keyless_world (Inr (JDict [(''city'', JInt 0)]))
     = (Inr (Jsonify (Error ''City not provided'') 400), [])" by blast
  from c get_weather_city [of "[(''city'', JStr ''Paris'')]" keyless_world]
  obtain wd where "get_weather_data keyless_world (JStr ''Paris'')
         = (Inr wd, snd (get_weather_data keyless_world (JStr ''Paris'')))"
    and "get_weather keyless_world (Inr (JDict [(''city'', JStr ''Paris'')]))
         = (Inr (Jsonify wd 200), snd (get_weather_data keyless_world (JStr ''Paris'')))"
    by blast
  with k have 3: "get_weather keyless_world (Inr (JDict [(''city'', JStr ''Paris'')]))
     = (Inr (Jsonify (Error ''Missing API Key'') 200), [])" by simp
  from 1 2 3 show ?thesis by simp
qed

text \<open>
  The claim as first stated fails for a city that is present and empty: the answer is the
  400 error, although the lookup for the empty city would have given a weather record.
\<close>

theorem get_weather_blank_city_counterexample:
  "map_of [(''city'', JStr [])] ''city'' = Some (JStr [])
   \<and> get_weather sample_world (Inr (JDict [(''city'', JStr [])]))
       = (Inr (Jsonify (Error ''City not provided'') 400), [])
   \<and> fst (get_weather_data sample_world (JStr []))
       = Inr (Weather \<lparr>location = [], description = JStr ''clear sky'',
                temperature = JFloat 21, temp_min = JFloat 19, temp_max = JInt 24,
                humidity = JInt 40, wind_speed = JFloat 3,
                icon = ''http://openweathermap.org/img/w/01d.png''\<rparr>)"
  by (simp add: get_weather_def get_weather_data_def sample_world_def try_except_def
        weather_try_def and_then_def weather_fields_def capitalize_def sample_weather_def
        fmt_def weather_url_def)

text \<open>
  Claim C10. A body whose \<^verbatim>\<open>city\<close> is the empty string is answered exactly as a body
  with no city: status 400, \<^verbatim>\<open>{"error": "City not provided"}\<close>, no call issued.
\<close>

theorem get_weather_empty_city:
  assumes "map_of kvs ''city'' = Some (JStr [])"
  shows "get_weather w (Inr (JDict kvs)) = (Inr (Jsonify (Error ''City not provided'') 400), [])
         \<and> get_weather w (Inr (JDict kvs)) = get_weather w (Inr (JDict []))"
proof -
  from assms have "dict_get (JDict kvs) ''city'' (JStr []) = Inr (JStr [])" by simp
  then have present:
    "get_weather w (Inr (JDict kvs)) = (Inr (Jsonify (Error ''City not provided'') 400), [])"
    by (rule get_weather_falsy) simp
  have "dict_get (JDict []) ''city'' (JStr []) = Inr (JStr [])" by simp
  then have "get_weather w (Inr (JDict [])) = (Inr (Jsonify (Error ''City not provided'') 400), [])"
    by (rule get_weather_falsy) simp
  with present show ?thesis by simp
qed

theorem get_weather_empty_city_witness:
  "get_weather sample_world (Inr (JDict [(''city'', JStr []), (''units'', JStr ''metric'')]))
     = (Inr (Jsonify (Error ''City not provided'') 400), [])"
proof -
  have "map_of [(''city'', JStr []), (''units'', JStr ''metric'')] ''city'' = Some (JStr [])"
    by simp
  from get_weather_empty_city [OF this, of sample_world] show ?thesis by simp
qed

section \<open>Login and logout\<close>






text \<open>
  Claim C8. Whatever the session holds, \<open>logout\<close> leaves a session with no user id, no
  user name and no travel data; all it holds is the notice of the logout, which
  \<open>flash\<close> queues after \<^verbatim>\<open>session.clear()\<close>. A dashboard request in that session is
  redirected to the login page and finds no identity and no travel data.
\<close>

theorem logout_clears_session:
  "snd (logout s) = \<lparr>user_id = None, user_name = None, travel_data = None,
                     flashes = [(''info'', ''You have been logged out!'')]\<rparr>
   \<and> fst (logout s) = Redirect ''home''
   \<and> fst (dashboard (snd (logout s))) = Redirect ''login''
   \<and> user_id (snd (dashboard (snd (logout s)))) = None
   \<and> user_name (snd (dashboard (snd (logout s)))) = None
   \<and> travel_data (snd (dashboard (snd (logout s)))) = None"
proof -
  have out: "snd (logout s) = \<lparr>user_id = None, user_name = None, travel_data = None,
                     flashes = [(''info'', ''You have been logged out!'')]\<rparr>"
    by (simp add: logout_def flash_def clear_def)
  have "fst (logout s) = Redirect ''home''"
    by (simp add: logout_def)
  moreover have "dashboard (snd (logout s)) =
      (Redirect ''login'',
       flash ''Please login to access your dashboard.'' ''warning'' (snd (logout s)))"
    unfolding out by (simp add: dashboard_def)
  ultimately show ?thesis using out by (simp add: flash_def)
qed

section \<open>Itinerary generation\<close>

lemma generate_itinerary_raises:
  assumes "user_id s \<noteq> None"
    and "and_then (generate_content w
            (itinerary_prompt w (frm ''destination'') (frm ''startDate'') (frm ''endDate'')))
          text_of = Inl e"
  shows "generate_itinerary w frm s =
           (Inl e, s,
            [GenerateContent
               (itinerary_prompt w (frm ''destination'') (frm ''startDate'') (frm ''endDate''))])"
  using assms by (simp add: generate_itinerary_def Let_def)

lemma generate_itinerary_stores:
  assumes "user_id s \<noteq> None"
    and "and_then (generate_content w
            (itinerary_prompt w (frm ''destination'') (frm ''startDate'') (frm ''endDate'')))
          text_of = Inr itin"
    and "get_weather_data w (field_value (frm ''destination'')) = (Inr wd, cs)"
  shows "generate_itinerary w frm s =
           (Inr (Redirect ''dashboard''),
            s\<lparr>travel_data := Some \<lparr>destination = frm ''destination'',
                                   start_date = frm ''startDate'', end_date = frm ''endDate'',
                                   itinerary = itin, weather = wd\<rparr>\<rparr>,
            GenerateContent
              (itinerary_prompt w (frm ''destination'') (frm ''startDate'') (frm ''endDate''))
              # cs)"
  using assms by (simp add: generate_itinerary_def Let_def)

text \<open>The session write is the last step: the bundle changes only on the redirect to the
  dashboard.\<close>

lemma generate_itinerary_write_last:
  assumes "travel_data (fst (snd (generate_itinerary w frm s))) \<noteq> travel_data s"
  shows "fst (generate_itinerary w frm s) = Inr (Redirect ''dashboard'')"
  using assms
  by (auto simp: generate_itinerary_def Let_def flash_def split: if_splits sum.splits prod.splits)

text \<open>What a generation request does to the session, in terms of its bundle.\<close>

lemma generate_itinerary_bundle:
  "request_bundle w frm s = Some b \<Longrightarrow>
     fst (generate_itinerary w frm s) = Inr (Redirect ''dashboard'')
     \<and> fst (snd (generate_itinerary w frm s)) = s\<lparr>travel_data := Some b\<rparr>"
  "request_bundle w frm s = None \<Longrightarrow>
     travel_data (fst (snd (generate_itinerary w frm s))) = travel_data s"
  by (auto simp: request_bundle_def generate_itinerary_def Let_def flash_def
           split: if_splits sum.splits prod.splits)

text \<open>One request changes the bundle of the session in one of three ways.\<close>

lemma handle_travel_data:
  "travel_data (sess (snd (handle w r st))) =
     (case r of
        Req_generate_itinerary frm \<Rightarrow>
          (case request_bundle w frm (sess st) of
             Some b \<Rightarrow> Some b
           | None \<Rightarrow> travel_data (sess st))
      | Req_logout \<Rightarrow> None
      | _ \<Rightarrow> travel_data (sess st))"
proof (cases r)
  case (Req_generate_itinerary frm)
  show ?thesis
  proof (cases "request_bundle w frm (sess st)")
    case None
    from generate_itinerary_bundle(2) [OF this] Req_generate_itinerary None
    show ?thesis by (auto split: prod.splits)
  next
    case (Some b)
    from generate_itinerary_bundle(1) [OF this] Req_generate_itinerary Some
    show ?thesis by (auto split: prod.splits)
  qed
next
  case (Req_login m frm)
  then show ?thesis
    by (auto simp: login_def flash_def split: prod.splits option.splits sum.splits if_splits)
next
  case (Req_register m frm)
  then show ?thesis
    by (auto simp: register_def flash_def split: prod.splits option.splits sum.splits if_splits)
qed (auto simp: dashboard_def logout_def flash_def clear_def split: prod.splits)

lemma run_travel_data:
  "travel_data (sess (run tr st)) = Some b \<Longrightarrow>
     latest_generated tr st = Some b
     \<or> (latest_generated tr st = None \<and> travel_data (sess st) = Some b)"
proof (induction tr arbitrary: st)
  case Nil
  then show ?case by simp
next
  case (Cons wr tr)
  obtain w r where wr: "wr = (w, r)" by (cases wr)
  let ?st' = "snd (handle w r st)"
  from Cons.prems wr have "travel_data (sess (run tr ?st')) = Some b" by simp
  from Cons.IH [OF this] show ?case
  proof (elim disjE conjE)
    assume "latest_generated tr ?st' = Some b"
    with wr show ?thesis by simp
  next
    assume later: "latest_generated tr ?st' = None"
      and now: "travel_data (sess ?st') = Some b"
    from now handle_travel_data [of w r st]
    have "(case r of Req_generate_itinerary frm \<Rightarrow> request_bundle w frm (sess st) | _ \<Rightarrow> None)
            = Some b
          \<or> ((case r of Req_generate_itinerary frm \<Rightarrow> request_bundle w frm (sess st)
                | _ \<Rightarrow> None) = None
              \<and> travel_data (sess st) = Some b)"
      by (cases r) (auto split: option.splits)
    with later wr show ?thesis by auto
  qed
qed

text \<open>
  Claim C9. In an authenticated session, when the generation call raises (or reading the
  text of its response does), the exception leaves the handler: the request fails with it,
  the session is exactly as before, travel data included, and the weather lookup was not
  started. For any request, the travel data of the session changes only when the handler
  reaches its redirect to the dashboard, after both outbound calls.
\<close>

theorem generate_itinerary_generation_fails:
  assumes "user_id s \<noteq> None"
    and "generate_content w
           (itinerary_prompt w (frm ''destination'') (frm ''startDate'') (frm ''endDate''))
           = Inl e
         \<or> (\<exists>g. generate_content w
                  (itinerary_prompt w (frm ''destination'') (frm ''startDate'') (frm ''endDate''))
                  = Inr g \<and> text_of g = Inl e)"
  shows "generate_itinerary w frm s =
           (Inl e, s,
            [GenerateContent
               (itinerary_prompt w (frm ''destination'') (frm ''startDate'') (frm ''endDate''))])
         \<and> handle w (Req_generate_itinerary frm) \<lparr>users = db, sess = s\<rparr>
             = (Inl e, \<lparr>users = db, sess = s\<rparr>)
         \<and> (\<forall>w' frm' s'.
               travel_data (fst (snd (generate_itinerary w' frm' s'))) \<noteq> travel_data s' \<longrightarrow>
               fst (generate_itinerary w' frm' s') = Inr (Redirect ''dashboard''))"
proof -
  from assms(2)
  have "and_then (generate_content w
            (itinerary_prompt w (frm ''destination'') (frm ''startDate'') (frm ''endDate'')))
          text_of = Inl e"
    by (auto simp: and_then_Inl and_then_Inr)
  with assms(1) have fails: "generate_itinerary w frm s =
           (Inl e, s,
            [GenerateContent
               (itinerary_prompt w (frm ''destination'') (frm ''startDate'') (frm ''endDate''))])"
    by (rule generate_itinerary_raises)
  then have "handle w (Req_generate_itinerary frm) \<lparr>users = db, sess = s\<rparr>
             = (Inl e, \<lparr>users = db, sess = s\<rparr>)"
    by simp
  with fails show ?thesis
    by (simp add: generate_itinerary_write_last)
qed

theorem generate_itinerary_generation_fails_witness:
  "generate_itinerary no_text_world paris_form ada_session =
     (Inl (Raised ''ResourceExhausted'' ''429 quota''), ada_session,
      [GenerateContent
         (itinerary_prompt no_text_world (Some ''Paris'') (Some ''2025-06-01'')
            (Some ''2025-06-03''))])"
proof -
  have auth: "user_id ada_session \<noteq> None"
    by (simp add: ada_session_def)
  have "generate_content no_text_world
           (itinerary_prompt no_text_world (paris_form ''destination'')
              (paris_form ''startDate'') (paris_form ''endDate''))
           = Inl (Raised ''ResourceExhausted'' ''429 quota'')"
    by (simp add: no_text_world_def)
  then have "generate_content no_text_world
           (itinerary_prompt no_text_world (paris_form ''destination'')
              (paris_form ''startDate'') (paris_form ''endDate''))
           = Inl (Raised ''ResourceExhausted'' ''429 quota'')
         \<or> (\<exists>g. generate_content no_text_world
                  (itinerary_prompt no_text_world (paris_form ''destination'')
                     (paris_form ''startDate'') (paris_form ''endDate''))
                  = Inr g \<and> text_of g = Inl (Raised ''ResourceExhausted'' ''429 quota''))"
    by (rule disjI1)
  from generate_itinerary_generation_fails [OF auth this, of "[]"]
  have "generate_itinerary no_text_world paris_form ada_session =
     (Inl (Raised ''ResourceExhausted'' ''429 quota''), ada_session,
      [GenerateContent
         (itinerary_prompt no_text_world (paris_form ''destination'')
            (paris_form ''startDate'') (paris_form ''endDate''))])"
    by (rule conjunct1)
  moreover have "paris_form ''destination'' = Some ''Paris''"
    and "paris_form ''startDate'' = Some ''2025-06-01''"
    and "paris_form ''endDate'' = Some ''2025-06-03''"
    by (simp_all add: paris_form_def)
  ultimately show ?thesis by simp
qed

text \<open>
  Claim C1. In an authenticated session, when the generation call returns its text, the
  handler redirects to the dashboard and the session is the old one with its travel data
  replaced by the bundle of this request: the three form fields, the generated text, and
  the record \<open>get_weather_data\<close> returns for the destination (which it always does).
  Over any sequence of requests served from a session without travel data, the travel
  data of the session is absent or is the bundle of the most recent successful generation
  request.
\<close>

theorem generate_itinerary_travel_data:
  "(\<forall>g itin.
      user_id s \<noteq> None
      \<and> generate_content w
          (itinerary_prompt w (frm ''destination'') (frm ''startDate'') (frm ''endDate''))
          = Inr g
      \<and> text_of g = Inr itin \<longrightarrow>
      (\<exists>wd. fst (get_weather_data w (field_value (frm ''destination''))) = Inr wd
         \<and> fst (generate_itinerary w frm s) = Inr (Redirect ''dashboard'')
         \<and> fst (snd (generate_itinerary w frm s)) =
             s\<lparr>travel_data := Some \<lparr>destination = frm ''destination'',
                                    start_date = frm ''startDate'', end_date = frm ''endDate'',
                                    itinerary = itin, weather = wd\<rparr>\<rparr>
         \<and> request_bundle w frm s =
             Some \<lparr>destination = frm ''destination'',
                   start_date = frm ''startDate'', end_date = frm ''endDate'',
                   itinerary = itin, weather = wd\<rparr>))
   \<and> (travel_data (sess st) = None \<longrightarrow>
        travel_data (sess (run tr st)) = None
        \<or> travel_data (sess (run tr st)) = latest_generated tr st)"
proof (intro conjI allI impI)
  fix g itin
  assume h: "user_id s \<noteq> None
      \<and> generate_content w
          (itinerary_prompt w (frm ''destination'') (frm ''startDate'') (frm ''endDate''))
          = Inr g
      \<and> text_of g = Inr itin"
  then have gen: "and_then (generate_content w
            (itinerary_prompt w (frm ''destination'') (frm ''startDate'') (frm ''endDate'')))
          text_of = Inr itin"
    by (simp add: and_then_Inr)
  from get_weather_data_returns [of w "field_value (frm ''destination'')"]
  obtain wd where wd: "fst (get_weather_data w (field_value (frm ''destination''))) = Inr wd"
    by blast
  then have "get_weather_data w (field_value (frm ''destination''))
               = (Inr wd, snd (get_weather_data w (field_value (frm ''destination''))))"
    by (metis prod.collapse)
  with h gen have "generate_itinerary w frm s =
           (Inr (Redirect ''dashboard''),
            s\<lparr>travel_data := Some \<lparr>destination = frm ''destination'',
                                   start_date = frm ''startDate'', end_date = frm ''endDate'',
                                   itinerary = itin, weather = wd\<rparr>\<rparr>,
            GenerateContent
              (itinerary_prompt w (frm ''destination'') (frm ''startDate'') (frm ''endDate''))
              # snd (get_weather_data w (field_value (frm ''destination''))))"
    by (intro generate_itinerary_stores) simp_all
  moreover from h gen wd have "request_bundle w frm s =
             Some \<lparr>destination = frm ''destination'',
                   start_date = frm ''startDate'', end_date = frm ''endDate'',
                   itinerary = itin, weather = wd\<rparr>"
    by (simp add: request_bundle_def)
  ultimately show "\<exists>wd. fst (get_weather_data w (field_value (frm ''destination''))) = Inr wd
         \<and> fst (generate_itinerary w frm s) = Inr (Redirect ''dashboard'')
         \<and> fst (snd (generate_itinerary w frm s)) =
             s\<lparr>travel_data := Some \<lparr>destination = frm ''destination'',
                                    start_date = frm ''startDate'', end_date = frm ''endDate'',
                                    itinerary = itin, weather = wd\<rparr>\<rparr>
         \<and> request_bundle w frm s =
             Some \<lparr>destination = frm ''destination'',
                   start_date = frm ''startDate'', end_date = frm ''endDate'',
                   itinerary = itin, weather = wd\<rparr>"
    using wd by simp
next
  assume fresh: "travel_data (sess st) = None"
  show "travel_data (sess (run tr st)) = None
        \<or> travel_data (sess (run tr st)) = latest_generated tr st"
  proof (cases "travel_data (sess (run tr st))")
    case None
    then show ?thesis by simp
  next
    case (Some b)
    from run_travel_data [OF this] fresh have "latest_generated tr st = Some b" by simp
    with Some show ?thesis by simp
  qed
qed

theorem generate_itinerary_travel_data_witness:
  "fst (generate_itinerary sample_world paris_form ada_session) = Inr (Redirect ''dashboard'')
   \<and> fst (snd (generate_itinerary sample_world paris_form ada_session))
       = ada_session\<lparr>travel_data := Some paris_bundle\<rparr>
   \<and> fst (dashboard (fst (snd (generate_itinerary sample_world paris_form ada_session))))
       = Render_dashboard (Some paris_bundle)
   \<and> travel_data (sess (run [(sample_world, Req_generate_itinerary paris_form),
                               (no_text_world, Req_generate_itinerary paris_form),
                               (sample_world, Req_dashboard)]
                          \<lparr>users = [ada], sess = ada_session\<rparr>))
       = Some paris_bundle"
proof -
  let ?gen = "generate_itinerary sample_world paris_form ada_session"
  have fields: "paris_form ''destination'' = Some ''Paris''"
    "paris_form ''startDate'' = Some ''2025-06-01''"
    "paris_form ''endDate'' = Some ''2025-06-03''"
    by (simp_all add: paris_form_def)
  have lookup: "fst (get_weather_data sample_world (JStr ''Paris'')) = Inr (weather paris_bundle)"
    by (simp add: get_weather_data_def sample_world_def try_except_def weather_try_def
          and_then_def weather_fields_def capitalize_def sample_weather_def fmt_def
          weather_url_def paris_bundle_def)
  have "user_id ada_session \<noteq> None
      \<and> generate_content sample_world
          (itinerary_prompt sample_world (paris_form ''destination'')
             (paris_form ''startDate'') (paris_form ''endDate''))
          = Inr \<lparr>text_of = Inr ''**Day 1: Exploring Paris**''\<rparr>
      \<and> text_of \<lparr>text_of = Inr ''**Day 1: Exploring Paris**''\<rparr>
          = Inr ''**Day 1: Exploring Paris**''"
    by (simp add: ada_session_def sample_world_def)
  with generate_itinerary_travel_data [of ada_session sample_world paris_form]
  obtain wd where
    "fst (get_weather_data sample_world (field_value (paris_form ''destination''))) = Inr wd"
    and "fst ?gen = Inr (Redirect ''dashboard'')"
    and "fst (snd ?gen) =
           ada_session\<lparr>travel_data := Some \<lparr>destination = paris_form ''destination'',
               start_date = paris_form ''startDate'', end_date = paris_form ''endDate'',
               itinerary = ''**Day 1: Exploring Paris**'', weather = wd\<rparr>\<rparr>"
    by blast
  with lookup fields have redirect: "fst ?gen = Inr (Redirect ''dashboard'')"
    and stored: "fst (snd ?gen) = ada_session\<lparr>travel_data := Some paris_bundle\<rparr>"
    by (simp_all add: field_value_def paris_bundle_def)
  from stored have page: "fst (dashboard (fst (snd ?gen))) = Render_dashboard (Some paris_bundle)"
    by (simp add: dashboard_def ada_session_def)
  have fails: "generate_itinerary no_text_world paris_form
                 (ada_session\<lparr>travel_data := Some paris_bundle\<rparr>)
               = (Inl (Raised ''ResourceExhausted'' ''429 quota''),
                  ada_session\<lparr>travel_data := Some paris_bundle\<rparr>,
                  [GenerateContent (itinerary_prompt no_text_world (paris_form ''destination'')
                     (paris_form ''startDate'') (paris_form ''endDate''))])"
    by (rule generate_itinerary_raises)
       (simp_all add: ada_session_def no_text_world_def and_then_Inl)
  from redirect stored
  have step1: "handle sample_world (Req_generate_itinerary paris_form)
                 \<lparr>users = [ada], sess = ada_session\<rparr>
               = (Inr (Redirect ''dashboard''),
                  \<lparr>users = [ada], sess = ada_session\<lparr>travel_data := Some paris_bundle\<rparr>\<rparr>)"
    by (auto split: prod.splits)
  from fails have step2: "handle no_text_world (Req_generate_itinerary paris_form)
                 \<lparr>users = [ada], sess = ada_session\<lparr>travel_data := Some paris_bundle\<rparr>\<rparr>
               = (Inl (Raised ''ResourceExhausted'' ''429 quota''),
                  \<lparr>users = [ada], sess = ada_session\<lparr>travel_data := Some paris_bundle\<rparr>\<rparr>)"
    by simp
  have step3: "handle sample_world Req_dashboard
                 \<lparr>users = [ada], sess = ada_session\<lparr>travel_data := Some paris_bundle\<rparr>\<rparr>
               = (Inr (Render_dashboard (Some paris_bundle)),
                  \<lparr>users = [ada], sess = ada_session\<lparr>travel_data := Some paris_bundle\<rparr>\<rparr>)"
    by (simp add: dashboard_def ada_session_def)
  have "travel_data (sess (run [(sample_world, Req_generate_itinerary paris_form),
                               (no_text_world, Req_generate_itinerary paris_form),
                               (sample_world, Req_dashboard)]
                          \<lparr>users = [ada], sess = ada_session\<rparr>))
       = Some paris_bundle"
    by (simp only: run.simps step1 step2 step3 snd_conv) simp
  with redirect stored page show ?thesis by simp
qed

end
